theory Spec2Isabelle
  imports Main
begin

section \<open>Data model\<close>

text \<open>
  Go strings are byte sequences and are modelled as \<open>string\<close>. A Go \<open>error\<close> value
  is either a plain message (\<open>fmt.Errorf\<close> without \<open>%w\<close>, \<open>errors.New\<close>) or a message
  wrapping another error (\<open>fmt.Errorf\<close> with \<open>%w\<close>). A panic unwinds the call and is
  kept apart from returned errors: a function that may panic returns \<open>panic + 'a\<close>.
\<close>

datatype error = ErrorString string | WrapError string error

fun Error :: "error \<Rightarrow> string" where
  "Error (ErrorString m) = m"
| "Error (WrapError m e) = m"

datatype panic = PanicValue error | NilPointerDereference

text \<open>
  \<open>authorizer.Decision\<close> of k8s.io/apiserver: \<open>DecisionDeny\<close> is \<open>iota\<close>, so it is the
  zero value of the type; then \<open>DecisionAllow\<close> and \<open>DecisionNoOpinion\<close>.
\<close>

datatype Decision = DecisionDeny | DecisionAllow | DecisionNoOpinion

text \<open>\<open>user.Info\<close> as \<open>user.DefaultInfo\<close> has it.\<close>

record DefaultInfo =
  Name_user :: string
  UID_user :: string
  Groups_user :: "string list"
  Extra_user :: "(string \<times> string list) list"

text \<open>
  \<open>authorizer.AttributesRecord\<close>; the getters of \<open>authorizer.Attributes\<close> read these
  fields. \<open>User\<close> is an interface value and may be nil.
\<close>

record Attributes =
  User :: "DefaultInfo option"
  Verb :: string
  Namespace :: string
  APIGroup :: string
  APIVersion :: string
  Resource :: string
  Subresource :: string
  Name :: string
  ResourceRequest :: bool
  Path :: string

text \<open>
  The request context carries the rewrite parameters under the key \<open>rewriterParams\<close>;
  the field is \<open>None\<close> when nothing was stored under the key.
\<close>

record Context =
  rewriterParams :: "string list option"

text \<open>
  An authorizer returns a decision, a reason and an error. It may have effects (the
  delegate calls the API server), so it threads a state \<open>'s\<close>; it may panic.
\<close>

type_synonym AuthzResult = "Decision \<times> string \<times> error option"

type_synonym 's Authorizer = "Context \<Rightarrow> Attributes \<Rightarrow> 's \<Rightarrow> (panic + AuthzResult) \<times> 's"

definition pureAuthorizer :: "(Context \<Rightarrow> Attributes \<Rightarrow> AuthzResult) \<Rightarrow> 's Authorizer" where
  "pureAuthorizer f ctx a s = (Inr (f ctx a), s)"

section \<open>Static authorizer (pkg/authz/auth.go)\<close>

record UserConfig =
  Name_uc :: string
  Groups_uc :: "string list"

record StaticAuthorizationConfig =
  User_cfg :: UserConfig
  Verb_cfg :: string
  Namespace_cfg :: string
  APIGroup_cfg :: string
  Resource_cfg :: string
  Subresource_cfg :: string
  Name_cfg :: string
  ResourceRequest_cfg :: bool
  Path_cfg :: string

text \<open>The closure \<open>isAllowed\<close> inside \<open>Matches\<close>.\<close>

definition isAllowed :: "string \<Rightarrow> string \<Rightarrow> bool" where
  "isAllowed staticConf requestVal =
     (if staticConf = '''' then True else staticConf = requestVal)"

definition Matches :: "StaticAuthorizationConfig \<Rightarrow> Attributes \<Rightarrow> bool" where
  "Matches saConfig a =
     (let userName = (case User a of None \<Rightarrow> '''' | Some u \<Rightarrow> Name_user u) in
      if isAllowed (Name_uc (User_cfg saConfig)) userName \<and>
         isAllowed (Verb_cfg saConfig) (Verb a) \<and>
         isAllowed (Namespace_cfg saConfig) (Namespace a) \<and>
         isAllowed (APIGroup_cfg saConfig) (APIGroup a) \<and>
         isAllowed (Resource_cfg saConfig) (Resource a) \<and>
         isAllowed (Subresource_cfg saConfig) (Subresource a) \<and>
         isAllowed (Name_cfg saConfig) (Name a) \<and>
         isAllowed (Path_cfg saConfig) (Path a) \<and>
         ResourceRequest_cfg saConfig = ResourceRequest a
      then True else False)"

text \<open>\<open>staticAuthorizer.Authorize\<close>: the loop over \<open>sa.config\<close>.\<close>

fun staticAuthorizer_Authorize :: "StaticAuthorizationConfig list \<Rightarrow> Attributes \<Rightarrow> AuthzResult" where
  "staticAuthorizer_Authorize [] a = (DecisionNoOpinion, '''', None)"
| "staticAuthorizer_Authorize (saConfig # rest) a =
     (if Matches saConfig a
      then (DecisionAllow, ''found corresponding static auth config'', None)
      else staticAuthorizer_Authorize rest a)"

text \<open>
  \<open>NewStaticAuthorizer\<close>. Its error message formats the whole configuration with the
  verb \<open>%v\<close> of \<open>fmt\<close>: a struct prints as its field values between braces, a slice
  as its elements between brackets, both separated by single spaces.
\<close>

fun Join :: "string list \<Rightarrow> string \<Rightarrow> string" where
  "Join [] sep = []"
| "Join [x] sep = x"
| "Join (x # y # rest) sep = x @ sep @ Join (y # rest) sep"

definition Sprint_strings :: "string list \<Rightarrow> string" where
  "Sprint_strings xs = ''['' @ Join xs '' '' @ '']''"

definition Sprint_bool :: "bool \<Rightarrow> string" where
  "Sprint_bool b = (if b then ''true'' else ''false'')"

definition Sprint_UserConfig :: "UserConfig \<Rightarrow> string" where
  "Sprint_UserConfig u = ''{'' @ Join [Name_uc u, Sprint_strings (Groups_uc u)] '' '' @ ''}''"

definition Sprint_StaticAuthorizationConfig :: "StaticAuthorizationConfig \<Rightarrow> string" where
  "Sprint_StaticAuthorizationConfig c =
     ''{'' @ Join [Sprint_UserConfig (User_cfg c), Verb_cfg c, Namespace_cfg c, APIGroup_cfg c,
                   Resource_cfg c, Subresource_cfg c, Name_cfg c,
                   Sprint_bool (ResourceRequest_cfg c), Path_cfg c] '' '' @ ''}''"

definition Sprint_config :: "StaticAuthorizationConfig list \<Rightarrow> string" where
  "Sprint_config config = ''['' @ Join (map Sprint_StaticAuthorizationConfig config) '' '' @ '']''"

text \<open>
  The loop of \<open>NewStaticAuthorizer\<close> over the rules still to check; \<open>config\<close> is the
  whole list, which the error message prints and the authorizer keeps.
\<close>

fun NewStaticAuthorizer_loop ::
  "StaticAuthorizationConfig list \<Rightarrow> StaticAuthorizationConfig list \<Rightarrow>
   error + StaticAuthorizationConfig list" where
  "NewStaticAuthorizer_loop [] config = Inr config"
| "NewStaticAuthorizer_loop (c # rest) config =
     (if ResourceRequest_cfg c \<noteq> (Path_cfg c = '''')
      then Inl (ErrorString
                  (''invalid configuration: resource requests must not include a path: '' @
                   Sprint_config config))
      else NewStaticAuthorizer_loop rest config)"

definition NewStaticAuthorizer ::
  "StaticAuthorizationConfig list \<Rightarrow> error + StaticAuthorizationConfig list" where
  "NewStaticAuthorizer config = NewStaticAuthorizer_loop config config"

text \<open>
  The static matcher as the specification words it: a rule matches when each of its
  non-empty string fields equals the corresponding field of the attributes and the two
  \<open>resourceRequest\<close> booleans are equal. The user name of attributes without a user is
  the empty string.
\<close>

definition attrUserName :: "Attributes \<Rightarrow> string" where
  "attrUserName a = (case User a of None \<Rightarrow> '''' | Some u \<Rightarrow> Name_user u)"

definition rule_fields :: "StaticAuthorizationConfig \<Rightarrow> Attributes \<Rightarrow> (string \<times> string) list" where
  "rule_fields r a =
     [(Name_uc (User_cfg r), attrUserName a),
      (Verb_cfg r, Verb a),
      (Namespace_cfg r, Namespace a),
      (APIGroup_cfg r, APIGroup a),
      (Resource_cfg r, Resource a),
      (Subresource_cfg r, Subresource a),
      (Name_cfg r, Name a),
      (Path_cfg r, Path a)]"

definition rule_matches :: "StaticAuthorizationConfig \<Rightarrow> Attributes \<Rightarrow> bool" where
  "rule_matches r a =
     ((\<forall>(conf, val) \<in> set (rule_fields r a). conf \<noteq> '''' \<longrightarrow> conf = val) \<and>
      ResourceRequest_cfg r = ResourceRequest a)"

section \<open>Path authorizer (pkg/authorization/path/path.go)\<close>

text \<open>
  \<open>strings.TrimPrefix\<close> and \<open>strings.ContainsRune\<close> for an ASCII rune: no byte of a
  multi-byte UTF-8 sequence equals an ASCII byte.
\<close>

definition HasPrefix :: "string \<Rightarrow> string \<Rightarrow> bool" where
  "HasPrefix s pre = (take (length pre) s = pre)"

definition TrimPrefix :: "string \<Rightarrow> string \<Rightarrow> string" where
  "TrimPrefix s pre = (if HasPrefix s pre then drop (length pre) s else s)"

definition ContainsRune :: "string \<Rightarrow> char \<Rightarrow> bool" where
  "ContainsRune s r = (r \<in> set s)"

record pathAuthorizer =
  matchDecision :: Decision
  noMatchDecision :: Decision
  paths :: "string set"
  pathPatterns :: "string list"

text \<open>
  The loop of \<open>newPathAuthorizer\<close> over \<open>inputPaths\<close>, carrying the set \<open>paths\<close> and the
  slice \<open>patterns\<close>.
\<close>

fun newPathAuthorizer_loop ::
  "string list \<Rightarrow> string set \<Rightarrow> string list \<Rightarrow> string set \<times> string list" where
  "newPathAuthorizer_loop [] pths patterns = (pths, patterns)"
| "newPathAuthorizer_loop (p0 # rest) pths patterns =
     (let p = TrimPrefix p0 ''/'' in
      if length p = 0 then newPathAuthorizer_loop rest (insert p pths) patterns
      else if ContainsRune p (CHR ''*'') then newPathAuthorizer_loop rest pths (patterns @ [p])
      else newPathAuthorizer_loop rest (insert p pths) patterns)"

definition newPathAuthorizer :: "Decision \<Rightarrow> Decision \<Rightarrow> string list \<Rightarrow> pathAuthorizer" where
  "newPathAuthorizer onMatch onNoMatch inputPaths =
     (case newPathAuthorizer_loop inputPaths {} [] of
        (pths, patterns) \<Rightarrow>
          \<lparr>matchDecision = onMatch, noMatchDecision = onNoMatch,
           paths = pths, pathPatterns = patterns\<rparr>)"

text \<open>
  \<open>path.Match\<close> is Go's standard library and not part of the repository: the
  authorizer takes it as a parameter. It returns whether the name matches the pattern,
  or the error \<open>ErrBadPattern\<close>.
\<close>

type_synonym Matcher = "string \<Rightarrow> string \<Rightarrow> error + bool"

text \<open>The loop of \<open>pathAuthorizer.Authorize\<close> over \<open>a.pathPatterns\<close>.\<close>

fun matchPatterns :: "Matcher \<Rightarrow> pathAuthorizer \<Rightarrow> string list \<Rightarrow> string \<Rightarrow> AuthzResult" where
  "matchPatterns Match a [] pth = (noMatchDecision a, '''', None)"
| "matchPatterns Match a (pattern # rest) pth =
     (case Match pattern pth of
        Inl err \<Rightarrow> (DecisionNoOpinion, ''Error'', Some err)
      | Inr found \<Rightarrow>
          if found then (matchDecision a, '''', None)
          else matchPatterns Match a rest pth)"

definition pathAuthorizer_Authorize :: "Matcher \<Rightarrow> pathAuthorizer \<Rightarrow> Attributes \<Rightarrow> AuthzResult" where
  "pathAuthorizer_Authorize Match a attr =
     (let pth = TrimPrefix (Path attr) ''/'' in
      if pth \<in> paths a then (matchDecision a, '''', None)
      else matchPatterns Match a (pathPatterns a) pth)"

definition noopAuthorizer :: "Attributes \<Rightarrow> AuthzResult" where
  "noopAuthorizer attr = (DecisionNoOpinion, '''', None)"

definition NewAllowPathAuthorizer :: "Matcher \<Rightarrow> string list \<Rightarrow> Attributes \<Rightarrow> AuthzResult" where
  "NewAllowPathAuthorizer Match allowPaths =
     (if length allowPaths = 0 then noopAuthorizer
      else pathAuthorizer_Authorize Match
             (newPathAuthorizer DecisionNoOpinion DecisionDeny allowPaths))"

definition NewAlwaysAllowPathAuthorizer :: "Matcher \<Rightarrow> string list \<Rightarrow> Attributes \<Rightarrow> AuthzResult" where
  "NewAlwaysAllowPathAuthorizer Match alwaysAllowPaths =
     pathAuthorizer_Authorize Match
       (newPathAuthorizer DecisionAllow DecisionNoOpinion alwaysAllowPaths)"

text \<open>
  The path matcher as the specification words it. One leading \<open>/\<close> is stripped from
  the configured entries and from the request path. The entries without \<open>*\<close> form the
  exact-match set, the others the pattern list in configuration order. The request path
  is looked up in the exact-match set first; otherwise the patterns are tried in order
  and the first that matches, or that is malformed, decides.
\<close>

datatype pathOutcome = Matched | NoMatch | BadPattern error

definition stripSlash :: "string \<Rightarrow> string" where
  "stripSlash s = (case s of [] \<Rightarrow> [] | c # cs \<Rightarrow> if c = CHR ''/'' then cs else s)"

definition exactPaths :: "string list \<Rightarrow> string set" where
  "exactPaths inputPaths = {p \<in> set (map stripSlash inputPaths). CHR ''*'' \<notin> set p}"

definition globPatterns :: "string list \<Rightarrow> string list" where
  "globPatterns inputPaths = filter (\<lambda>p. CHR ''*'' \<in> set p) (map stripSlash inputPaths)"

definition pathOutcomeOf :: "Matcher \<Rightarrow> string list \<Rightarrow> string \<Rightarrow> pathOutcome" where
  "pathOutcomeOf Match inputPaths path =
     (let pth = stripSlash path in
      if pth \<in> exactPaths inputPaths then Matched
      else (case dropWhile (\<lambda>p. Match p pth = Inr False) (globPatterns inputPaths) of
              [] \<Rightarrow> NoMatch
            | p # _ \<Rightarrow> (case Match p pth of Inl e \<Rightarrow> BadPattern e | Inr _ \<Rightarrow> Matched)))"

definition pathDecision :: "Decision \<Rightarrow> Decision \<Rightarrow> pathOutcome \<Rightarrow> AuthzResult" where
  "pathDecision onMatch onNoMatch outcome =
     (case outcome of
        Matched \<Rightarrow> (onMatch, [], None)
      | NoMatch \<Rightarrow> (onNoMatch, [], None)
      | BadPattern e \<Rightarrow> (DecisionNoOpinion, ''Error'', Some e))"

text \<open>
  A matcher to evaluate the authorizer on concrete patterns. It covers the patterns made
  of literal bytes and \<open>*\<close>, where \<open>path.Match\<close> lets \<open>*\<close> stand for any run of bytes
  other than \<open>/\<close>; it reports every pattern with \<open>[\<close>, \<open>?\<close> or a backslash as malformed,
  which is right for the pattern \<open>[*\<close> against a non-empty name (the class is never
  closed) and says nothing about the others.
\<close>

fun starMatch :: "string \<Rightarrow> string \<Rightarrow> bool" where
  "starMatch [] name = (name = [])"
| "starMatch (c # pattern) [] = (c = CHR ''*'' \<and> starMatch pattern [])"
| "starMatch (c # pattern) (n # name) =
     (if c = CHR ''*''
      then starMatch pattern (n # name) \<or> (n \<noteq> CHR ''/'' \<and> starMatch (c # pattern) name)
      else c = n \<and> starMatch pattern name)"

definition literalStarMatch :: Matcher where
  "literalStarMatch pattern name =
     (if CHR ''['' \<in> set pattern \<or> CHR ''?'' \<in> set pattern \<or> CHR 0x5C \<in> set pattern
      then Inl (ErrorString ''syntax error in pattern'')
      else Inr (starMatch pattern name))"

section \<open>Rewrite configuration and parameter extraction (pkg/authorization/rewrite)\<close>

record QueryParameterRewriteConfig =
  Name_query :: string

record HTTPHeaderRewriteConfig =
  Name_header :: string

record SubjectAccessReviewRewrites =
  ByQueryParameter :: "QueryParameterRewriteConfig option"
  ByHTTPHeader :: "HTTPHeaderRewriteConfig option"

record ResourceAttributes =
  Namespace_ra :: string
  APIGroup_ra :: string
  APIVersion_ra :: string
  Resource_ra :: string
  Subresource_ra :: string
  Name_ra :: string

record RewriteAttributesConfig =
  Rewrites :: "SubjectAccessReviewRewrites option"
  ResourceAttributes :: "ResourceAttributes option"
  ResourceAttributesFile :: string

text \<open>
  Of \<open>http.Request\<close> the extractor reads \<open>req.URL.Query()\<close> and \<open>req.Header\<close>, both maps
  from a key to the values in the order the transport presented them.
\<close>

record Request =
  Query :: "string \<rightharpoonup> string list"
  Header :: "string \<rightharpoonup> string list"

text \<open>
  \<open>requestToParams\<close> (middleware.go; the function of the same name in config.go has the
  same body). \<open>textproto.CanonicalMIMEHeaderKey\<close> is Go's standard library and is taken
  as the parameter \<open>canonicalKey\<close>. A nil slice and an empty slice are both \<open>[]\<close>: the
  callers read the result through \<open>len\<close> and \<open>range\<close> only.
\<close>

definition requestToParams ::
  "(string \<Rightarrow> string) \<Rightarrow> RewriteAttributesConfig option \<Rightarrow> Request \<Rightarrow> string list" where
  "requestToParams canonicalKey config req =
     (case config of
        None \<Rightarrow> []
      | Some cfg \<Rightarrow>
          (case Rewrites cfg of
             None \<Rightarrow> []
           | Some rewrites \<Rightarrow>
               (let params = [];
                    params =
                      (case ByQueryParameter rewrites of
                         None \<Rightarrow> params
                       | Some q \<Rightarrow>
                           if Name_query q \<noteq> ''''
                           then (case Query req (Name_query q) of
                                   Some ps \<Rightarrow> params @ ps
                                 | None \<Rightarrow> params)
                           else params);
                    params =
                      (case ByHTTPHeader rewrites of
                         None \<Rightarrow> params
                       | Some h \<Rightarrow>
                           if Name_header h \<noteq> ''''
                           then (let mimeKey = canonicalKey (Name_header h) in
                                 case Header req mimeKey of
                                   Some ps \<Rightarrow> params @ ps
                                 | None \<Rightarrow> params)
                           else params)
                in params)))"

definition WithKubeRBACProxyParams :: "Context \<Rightarrow> string list \<Rightarrow> Context" where
  "WithKubeRBACProxyParams ctx params = ctx\<lparr>rewriterParams := Some params\<rparr>"

definition GetKubeRBACProxyParams :: "Context \<Rightarrow> string list" where
  "GetKubeRBACProxyParams ctx = (case rewriterParams ctx of None \<Rightarrow> [] | Some params \<Rightarrow> params)"

text \<open>
  The two sources of the extractor, each reading one map of the request only: the values
  of the configured query parameter, and the values of the configured header under its
  canonical key. A source that is not configured, or whose name is empty, has no values.
\<close>

definition queryValues :: "SubjectAccessReviewRewrites \<Rightarrow> (string \<rightharpoonup> string list) \<Rightarrow> string list" where
  "queryValues rewrites query =
     (case ByQueryParameter rewrites of
        None \<Rightarrow> []
      | Some q \<Rightarrow>
          if Name_query q = [] then []
          else (case query (Name_query q) of None \<Rightarrow> [] | Some ps \<Rightarrow> ps))"

definition headerValues ::
  "(string \<Rightarrow> string) \<Rightarrow> SubjectAccessReviewRewrites \<Rightarrow> (string \<rightharpoonup> string list) \<Rightarrow> string list" where
  "headerValues canonicalKey rewrites header =
     (case ByHTTPHeader rewrites of
        None \<Rightarrow> []
      | Some h \<Rightarrow>
          if Name_header h = [] then []
          else (case header (canonicalKey (Name_header h)) of None \<Rightarrow> [] | Some ps \<Rightarrow> ps))"

text \<open>
  A canonicalisation to evaluate the extractor on concrete header names, after the
  documentation of \<open>textproto.CanonicalMIMEHeaderKey\<close>: the first letter and every letter
  after a hyphen in upper case, the other letters in lower case; a key with a byte that
  is not a header token byte is returned as it is.
\<close>

definition isLower :: "char \<Rightarrow> bool" where
  "isLower c = (97 \<le> (of_char c :: nat) \<and> (of_char c :: nat) \<le> 122)"

definition isUpper :: "char \<Rightarrow> bool" where
  "isUpper c = (65 \<le> (of_char c :: nat) \<and> (of_char c :: nat) \<le> 90)"

definition isDigit :: "char \<Rightarrow> bool" where
  "isDigit c = (48 \<le> (of_char c :: nat) \<and> (of_char c :: nat) \<le> 57)"

definition validHeaderFieldByte :: "char \<Rightarrow> bool" where
  "validHeaderFieldByte c =
     (isLower c \<or> isUpper c \<or> isDigit c \<or> c \<in> set ''!#$%&*+-.^_`|~'' \<or> c = CHR 0x27)"

fun canonicalLetters :: "bool \<Rightarrow> string \<Rightarrow> string" where
  "canonicalLetters upper [] = []"
| "canonicalLetters upper (c # cs) =
     (let c' = (if upper \<and> isLower c then char_of ((of_char c :: nat) - 32)
                else if \<not> upper \<and> isUpper c then char_of ((of_char c :: nat) + 32)
                else c)
      in c' # canonicalLetters (c' = CHR ''-'') cs)"

definition CanonicalMIMEHeaderKey :: "string \<Rightarrow> string" where
  "CanonicalMIMEHeaderKey s =
     (if list_all validHeaderFieldByte s then canonicalLetters True s else s)"

section \<open>Template substitution\<close>

text \<open>
  \<open>text/template\<close> and \<open>html/template\<close> are Go's standard library and not part of the
  repository: the substitution takes the library as a parameter. \<open>Parse\<close> returns a
  template or an error. \<open>Execute\<close> is a method on a pointer that may be nil (\<open>None\<close>) and
  is given the value bound to \<open>.Value\<close>; it panics, returns an error, or returns the
  rendered text.
\<close>

record 't TemplateLib =
  Parse :: "string \<Rightarrow> error + 't"
  Execute :: "'t option \<Rightarrow> string \<Rightarrow> panic + (error + string)"

text \<open>
  \<open>templateWithValue\<close> of the attribute generators (package \<open>rewrite\<close>, next to
  \<open>RewritingAttributesGenerator\<close>): the error of \<open>Parse\<close> is dropped, so \<open>tmpl\<close> is
  nil when the template does not parse, and \<open>Execute\<close> is called on it all the same.
\<close>

definition templateWithValue :: "'t TemplateLib \<Rightarrow> string \<Rightarrow> string \<Rightarrow> panic + string" where
  "templateWithValue lib templateString val =
     (let tmpl = (case Parse lib templateString of Inl _ \<Rightarrow> None | Inr t \<Rightarrow> Some t) in
      case Execute lib tmpl val of
        Inl p \<Rightarrow> Inl p
      | Inr (Inl err) \<Rightarrow> Inr ''''
      | Inr (Inr out) \<Rightarrow> Inr out)"

text \<open>
  \<open>templateWithValue\<close> of pkg/authz/auth.go has the same body over \<open>html/template\<close>.
\<close>

definition templateWithValue_authz :: "'t TemplateLib \<Rightarrow> string \<Rightarrow> string \<Rightarrow> panic + string" where
  "templateWithValue_authz lib templateString val =
     (let tmpl = (case Parse lib templateString of Inl _ \<Rightarrow> None | Inr t \<Rightarrow> Some t) in
      case Execute lib tmpl val of
        Inl p \<Rightarrow> Inl p
      | Inr (Inl err) \<Rightarrow> Inr ''''
      | Inr (Inr out) \<Rightarrow> Inr out)"

text \<open>
  \<open>templateWithValue\<close> of pkg/authorization/config.go (next to \<open>rewritingAuthorizer\<close>):
  it panics with the error of \<open>Parse\<close>.
\<close>

definition templateWithValue_rewriting :: "'t TemplateLib \<Rightarrow> string \<Rightarrow> string \<Rightarrow> panic + string" where
  "templateWithValue_rewriting lib templateString val =
     (case Parse lib templateString of
        Inl err \<Rightarrow> Inl (PanicValue err)
      | Inr tmpl \<Rightarrow>
          (case Execute lib (Some tmpl) val of
             Inl p \<Rightarrow> Inl p
           | Inr (Inl err) \<Rightarrow> Inr ''''
           | Inr (Inr out) \<Rightarrow> Inr out))"

text \<open>
  A template library to evaluate the substitution on concrete templates. It covers the
  fragment of \<open>text/template\<close> made of literal text and actions \<open>{{ .Field }}\<close> over
  the data \<open>struct{ Value string }\<close>: an action that is not closed does not parse,
  \<open>.Value\<close> renders the value, any other field fails at execution, literal text renders
  as it is, and \<open>Execute\<close> on a nil template dereferences it and panics. An action of
  another form is outside the fragment and is reported as not parsing; error messages
  are shortened.
\<close>

datatype tnode = TextNode string | FieldNode string

fun lexTemplate :: "bool \<Rightarrow> string \<Rightarrow> string \<Rightarrow> (bool \<times> string) list option" where
  "lexTemplate inAction acc [] = (if inAction then None else Some [(False, rev acc)])"
| "lexTemplate inAction acc [c] = (if inAction then None else Some [(False, rev (c # acc))])"
| "lexTemplate inAction acc (c # d # cs) =
     (if \<not> inAction \<and> c = CHR ''{'' \<and> d = CHR ''{''
      then map_option (Cons (False, rev acc)) (lexTemplate True [] cs)
      else if inAction \<and> c = CHR ''}'' \<and> d = CHR ''}''
      then map_option (Cons (True, rev acc)) (lexTemplate False [] cs)
      else lexTemplate inAction (c # acc) (d # cs))"

definition trimSpaces :: "string \<Rightarrow> string" where
  "trimSpaces s =
     rev (dropWhile (\<lambda>c. c = CHR '' '') (rev (dropWhile (\<lambda>c. c = CHR '' '') s)))"

definition isFieldName :: "string \<Rightarrow> bool" where
  "isFieldName n =
     (case n of
        [] \<Rightarrow> False
      | c # cs \<Rightarrow>
          (isLower c \<or> isUpper c \<or> c = CHR ''_'') \<and>
          list_all (\<lambda>x. isLower x \<or> isUpper x \<or> isDigit x \<or> x = CHR ''_'') cs)"

definition fieldOfAction :: "string \<Rightarrow> string option" where
  "fieldOfAction body =
     (case trimSpaces body of
        [] \<Rightarrow> None
      | c # n \<Rightarrow> if c = CHR ''.'' \<and> isFieldName n then Some n else None)"

fun nodesOf :: "(bool \<times> string) list \<Rightarrow> error + tnode list" where
  "nodesOf [] = Inr []"
| "nodesOf ((isAction, body) # rest) =
     (if isAction
      then (case fieldOfAction body of
              None \<Rightarrow> Inl (ErrorString ''unsupported action'')
            | Some f \<Rightarrow>
                (case nodesOf rest of Inl e \<Rightarrow> Inl e | Inr ns \<Rightarrow> Inr (FieldNode f # ns)))
      else (case nodesOf rest of Inl e \<Rightarrow> Inl e | Inr ns \<Rightarrow> Inr (TextNode body # ns)))"

definition fragment_Parse :: "string \<Rightarrow> error + tnode list" where
  "fragment_Parse text =
     (case lexTemplate False [] text of
        None \<Rightarrow> Inl (ErrorString ''unclosed action'')
      | Some toks \<Rightarrow> nodesOf toks)"

fun renderNodes :: "tnode list \<Rightarrow> string \<Rightarrow> error + string" where
  "renderNodes [] val = Inr []"
| "renderNodes (TextNode t # rest) val =
     (case renderNodes rest val of Inl e \<Rightarrow> Inl e | Inr out \<Rightarrow> Inr (t @ out))"
| "renderNodes (FieldNode f # rest) val =
     (if f = ''Value''
      then (case renderNodes rest val of Inl e \<Rightarrow> Inl e | Inr out \<Rightarrow> Inr (val @ out))
      else Inl (ErrorString (''can't evaluate field '' @ f)))"

definition fragment_Execute :: "tnode list option \<Rightarrow> string \<Rightarrow> panic + (error + string)" where
  "fragment_Execute tmpl val =
     (case tmpl of
        None \<Rightarrow> Inl NilPointerDereference
      | Some ns \<Rightarrow> Inr (renderNodes ns val))"

definition fragmentLib :: "tnode list TemplateLib" where
  "fragmentLib = \<lparr>Parse = fragment_Parse, Execute = fragment_Execute\<rparr>"

text \<open>A template string has a placeholder when it has the left delimiter \<open>{{\<close>.\<close>

fun hasDelim :: "string \<Rightarrow> bool" where
  "hasDelim (c # d # cs) = ((c = CHR ''{'' \<and> d = CHR ''{'') \<or> hasDelim (d # cs))"
| "hasDelim [c] = False"
| "hasDelim [] = False"

section \<open>Attribute generators (package rewrite)\<close>

type_synonym AttributesGenerator = "Context \<Rightarrow> Attributes \<Rightarrow> panic + Attributes list"

definition bindP :: "panic + 'a \<Rightarrow> ('a \<Rightarrow> panic + 'b) \<Rightarrow> panic + 'b" where
  "bindP m f = (case m of Inl p \<Rightarrow> Inl p | Inr x \<Rightarrow> f x)"

definition DefaultAttributesGenerator_Generate :: AttributesGenerator where
  "DefaultAttributesGenerator_Generate ctx attr =
     Inr [\<lparr>User = User attr, Verb = Verb attr,
           Namespace = '''', APIGroup = '''', APIVersion = '''', Resource = '''',
           Subresource = '''', Name = '''',
           ResourceRequest = False, Path = Path attr\<rparr>]"

definition BoundAttributesGenerator_Generate :: "ResourceAttributes \<Rightarrow> AttributesGenerator" where
  "BoundAttributesGenerator_Generate attributes ctx attr =
     Inr [\<lparr>User = User attr, Verb = Verb attr,
           Namespace = Namespace_ra attributes,
           APIGroup = APIGroup_ra attributes,
           APIVersion = APIVersion_ra attributes,
           Resource = Resource_ra attributes,
           Subresource = Subresource_ra attributes,
           Name = Name_ra attributes,
           ResourceRequest = True, Path = ''''\<rparr>]"

text \<open>
  The record that \<open>RewritingAttributesGenerator.Generate\<close> appends for one parameter.
  The six calls of \<open>templateWithValue\<close> run in the order of the struct literal; the first
  that panics ends the call.
\<close>

definition rewrittenAttributes ::
  "(string \<Rightarrow> string \<Rightarrow> panic + string) \<Rightarrow> ResourceAttributes \<Rightarrow> Attributes \<Rightarrow> string \<Rightarrow>
   panic + Attributes" where
  "rewrittenAttributes tmplWithValue attributes attr param =
     bindP (tmplWithValue (Namespace_ra attributes) param) (\<lambda>ns.
     bindP (tmplWithValue (APIGroup_ra attributes) param) (\<lambda>grp.
     bindP (tmplWithValue (APIVersion_ra attributes) param) (\<lambda>ver.
     bindP (tmplWithValue (Resource_ra attributes) param) (\<lambda>res.
     bindP (tmplWithValue (Subresource_ra attributes) param) (\<lambda>sub.
     bindP (tmplWithValue (Name_ra attributes) param) (\<lambda>nm.
       Inr \<lparr>User = User attr, Verb = Verb attr,
            Namespace = ns, APIGroup = grp, APIVersion = ver, Resource = res,
            Subresource = sub, Name = nm,
            ResourceRequest = True, Path = ''''\<rparr>))))))"

text \<open>The loop over \<open>params\<close>, appending to \<open>attrs\<close>.\<close>

fun rewriteLoop ::
  "(string \<Rightarrow> string \<Rightarrow> panic + string) \<Rightarrow> ResourceAttributes \<Rightarrow> Attributes \<Rightarrow> string list \<Rightarrow>
   Attributes list \<Rightarrow> panic + Attributes list" where
  "rewriteLoop tmplWithValue attributes attr [] attrs = Inr attrs"
| "rewriteLoop tmplWithValue attributes attr (param # rest) attrs =
     (case rewrittenAttributes tmplWithValue attributes attr param of
        Inl p \<Rightarrow> Inl p
      | Inr r \<Rightarrow> rewriteLoop tmplWithValue attributes attr rest (attrs @ [r]))"

definition RewritingAttributesGenerator_Generate ::
  "'t TemplateLib \<Rightarrow> ResourceAttributes \<Rightarrow> AttributesGenerator" where
  "RewritingAttributesGenerator_Generate lib attributes ctx attr =
     (let params = GetKubeRBACProxyParams ctx in
      if length params = 0 then Inr []
      else rewriteLoop (templateWithValue lib) attributes attr params [])"

text \<open>
  \<open>rewritingAuthorizer.getKubeRBACProxyAuthzAttributes\<close> of pkg/authorization/config.go,
  the older form of the three generators in one function.
\<close>

definition getKubeRBACProxyAuthzAttributes ::
  "'t TemplateLib \<Rightarrow> RewriteAttributesConfig \<Rightarrow> AttributesGenerator" where
  "getKubeRBACProxyAuthzAttributes lib config ctx origAttrs =
     (let u = User origAttrs; apiVerb = Verb origAttrs; path = Path origAttrs; attrs = [] in
      case ResourceAttributes config of
        None \<Rightarrow>
          Inr (attrs @ [\<lparr>User = u, Verb = apiVerb,
                         Namespace = '''', APIGroup = '''', APIVersion = '''', Resource = '''',
                         Subresource = '''', Name = '''',
                         ResourceRequest = False, Path = path\<rparr>])
      | Some ra \<Rightarrow>
          (case Rewrites config of
             None \<Rightarrow>
               Inr (attrs @ [\<lparr>User = u, Verb = apiVerb,
                              Namespace = Namespace_ra ra, APIGroup = APIGroup_ra ra,
                              APIVersion = APIVersion_ra ra, Resource = Resource_ra ra,
                              Subresource = Subresource_ra ra, Name = Name_ra ra,
                              ResourceRequest = True, Path = ''''\<rparr>])
           | Some _ \<Rightarrow>
               (let params = GetKubeRBACProxyParams ctx in
                if length params = 0 then Inr []
                else rewriteLoop (templateWithValue_rewriting lib) ra origAttrs params attrs)))"







section \<open>The AND-combinator\<close>

text \<open>
  The text both \<open>Authorize\<close> methods format with
  \<open>(user=%s, verb=%s, resource=%s, subresource=%s)\<close> from \<open>GetName\<close>, \<open>GetVerb\<close>,
  \<open>GetResource\<close> and \<open>GetSubresource\<close> of the attribute set at hand.
\<close>

definition coordinates :: "Attributes \<Rightarrow> string" where
  "coordinates attr =
     ''(user='' @ Name attr @ '', verb='' @ Verb attr @ '', resource='' @ Resource attr @
     '', subresource='' @ Subresource attr @ '')''"

text \<open>
  The loop over the generated attribute sets and the statements after it, the same in
  \<open>delegateAuthorizer.Authorize\<close> and \<open>rewritingAuthorizer.Authorize\<close>. \<open>authorized\<close> is the
  variable the loop assigns and the last \<open>if\<close> reads.
\<close>

fun authorizeAll ::
  "'s Authorizer \<Rightarrow> Context \<Rightarrow> Attributes list \<Rightarrow> Decision \<Rightarrow> 's \<Rightarrow> (panic + AuthzResult) \<times> 's" where
  "authorizeAll delegate ctx [] authorized s =
     (if authorized = DecisionAllow
      then (Inr (authorized, '''', None), s)
      else (Inr (DecisionDeny, ''No attribute combination matched'', None), s))"
| "authorizeAll delegate ctx (attr # rest) authorized s =
     (case delegate ctx attr s of
        (Inl p, s') \<Rightarrow> (Inl p, s')
      | (Inr (authorized', reason, err), s') \<Rightarrow>
          (case err of
             Some e \<Rightarrow>
               (Inr (DecisionDeny, ''AuthorizationError'',
                     Some (WrapError (''authorization error '' @ coordinates attr @ '': '' @ Error e) e)),
                s')
           | None \<Rightarrow>
               if authorized' \<noteq> DecisionAllow
               then (Inr (DecisionDeny, ''Forbidden '' @ coordinates attr @ '': '' @ reason, None), s')
               else authorizeAll delegate ctx rest authorized' s'))"

text \<open>
  \<open>delegateAuthorizer.Authorize\<close> (package rewrite): \<open>authorized\<close> is a named result and
  starts as the zero value \<open>DecisionDeny\<close>.
\<close>

definition delegateAuthorizer_Authorize :: "'s Authorizer \<Rightarrow> AttributesGenerator \<Rightarrow> 's Authorizer" where
  "delegateAuthorizer_Authorize delegate attrGen ctx attr s =
     (case attrGen ctx attr of
        Inl p \<Rightarrow> (Inl p, s)
      | Inr attrs \<Rightarrow> authorizeAll delegate ctx attrs DecisionDeny s)"

definition NewDelegateAuthorizer :: "'s Authorizer \<Rightarrow> AttributesGenerator \<Rightarrow> 's Authorizer" where
  "NewDelegateAuthorizer delegate attrGen = delegateAuthorizer_Authorize delegate attrGen"

text \<open>\<open>rewritingAuthorizer\<close> of pkg/authorization/config.go.\<close>

definition NewRewritingAuthorizer_config :: "RewriteAttributesConfig option \<Rightarrow> RewriteAttributesConfig" where
  "NewRewritingAuthorizer_config config =
     (case config of
        None \<Rightarrow> \<lparr>Rewrites = None, ResourceAttributes = None, ResourceAttributesFile = ''''\<rparr>
      | Some rewriteConfig \<Rightarrow> rewriteConfig)"

definition rewritingAuthorizer_Authorize ::
  "'t TemplateLib \<Rightarrow> 's Authorizer \<Rightarrow> RewriteAttributesConfig \<Rightarrow> 's Authorizer" where
  "rewritingAuthorizer_Authorize lib delegate config ctx attrs s =
     (case getKubeRBACProxyAuthzAttributes lib config ctx attrs of
        Inl p \<Rightarrow> (Inl p, s)
      | Inr proxyAttrs \<Rightarrow>
          if length proxyAttrs = 0
          then (Inr (DecisionDeny, ''The request or configuration is malformed.'',
                     Some (ErrorString ''bad request. The request or configuration is malformed'')),
                s)
          else authorizeAll delegate ctx proxyAttrs DecisionDeny s)"


text \<open>
  A delegate that records the attribute sets it is called with, in order, and answers
  by a function of the context and the attributes.
\<close>

definition recordingDelegate ::
  "(Context \<Rightarrow> Attributes \<Rightarrow> AuthzResult) \<Rightarrow> Attributes list Authorizer" where
  "recordingDelegate answer ctx attr calls = (Inr (answer ctx attr), calls @ [attr])"



section \<open>The composition root\<close>

text \<open>
  Modelled from the spec: \<open>union.New\<close> of k8s.io/apiserver is not part of the
  repository. The OR-combinator evaluates the strategies in order and returns the first
  decision that is not NoOpinion (Allow, Deny, or an error), without calling the
  remaining ones; when every strategy returns NoOpinion it returns NoOpinion.
  \<open>SetupAuthorizer\<close> takes the combinator as a parameter; this one evaluates it.
\<close>

fun unionAuthorize :: "'s Authorizer list \<Rightarrow> 's Authorizer" where
  "unionAuthorize [] ctx a s = (Inr (DecisionNoOpinion, '''', None), s)"
| "unionAuthorize (h # hs) ctx a s =
     (case h ctx a s of
        (Inl p, s') \<Rightarrow> (Inl p, s')
      | (Inr (decision, reason, err), s') \<Rightarrow>
          if decision \<noteq> DecisionNoOpinion \<or> err \<noteq> None
          then (Inr (decision, reason, err), s')
          else unionAuthorize hs ctx a s')"

record AuthzConfig =
  RewriteAttributesConfig :: "RewriteAttributesConfig option"
  Static :: "StaticAuthorizationConfig list option"

text \<open>
  \<open>SetupAuthorizer\<close>. \<open>AuthzConfig\<close> embeds a pointer to \<open>RewriteAttributesConfig\<close>;
  reading \<open>config.ResourceAttributes\<close> through a nil pointer panics. \<open>Static\<close> is a slice
  compared with nil. \<open>delegate\<close> is \<open>delegate.Authorizer\<close>.
\<close>

definition SetupAuthorizer ::
  "('s Authorizer list \<Rightarrow> 's Authorizer) \<Rightarrow> Matcher \<Rightarrow> 't TemplateLib \<Rightarrow>
   AuthzConfig \<Rightarrow> string list \<Rightarrow> string list \<Rightarrow> 's Authorizer \<Rightarrow>
   panic + (error + 's Authorizer)" where
  "SetupAuthorizer unionNew Match lib config allowPaths ignorePaths delegate =
     (let authz = [] in
      if length allowPaths > 0 \<and> length ignorePaths > 0
      then Inr (Inl (ErrorString ''allow and ignore paths cannot be used together''))
      else
        let authz =
              (if length allowPaths > 0
               then authz @ [pureAuthorizer (\<lambda>ctx. NewAllowPathAuthorizer Match allowPaths)]
               else if length ignorePaths > 0
               then authz @ [pureAuthorizer (\<lambda>ctx. NewAlwaysAllowPathAuthorizer Match ignorePaths)]
               else authz);
            static =
              (case Static config of
                 None \<Rightarrow> Inr authz
               | Some rules \<Rightarrow>
                   (case NewStaticAuthorizer rules of
                      Inl err \<Rightarrow>
                        Inl (WrapError (''failed to create static authorizer: '' @ Error err) err)
                    | Inr staticAuthorizer \<Rightarrow>
                        Inr (authz @ [pureAuthorizer (\<lambda>ctx. staticAuthorizer_Authorize staticAuthorizer)])))
        in
        case static of
          Inl err \<Rightarrow> Inr (Inl err)
        | Inr authz \<Rightarrow>
            (let delegatedAuthz = unionNew (authz @ [delegate]) in
             case RewriteAttributesConfig config of
               None \<Rightarrow> Inl NilPointerDereference
             | Some rac \<Rightarrow>
                 (let attrsGenerator =
                        (case (ResourceAttributes rac, Rewrites rac) of
                           (Some ra, None) \<Rightarrow> BoundAttributesGenerator_Generate ra
                         | (Some ra, Some _) \<Rightarrow> RewritingAttributesGenerator_Generate lib ra
                         | (None, _) \<Rightarrow> DefaultAttributesGenerator_Generate)
                  in Inr (Inr (NewDelegateAuthorizer delegatedAuthz attrsGenerator)))))"

text \<open>
  \<open>setupAuthorizer\<close> of pkg/authorization/authorization.go, the older composition
  root. Of \<open>krbInfo\<close> it reads \<open>Authorization\<close>, \<open>AllowPaths\<close> and \<open>IgnorePaths\<close>, taken
  here as three parameters. A nil \<open>Static\<close> slice is a list without rules.
\<close>

definition setupAuthorizer ::
  "('s Authorizer list \<Rightarrow> 's Authorizer) \<Rightarrow> Matcher \<Rightarrow> 't TemplateLib \<Rightarrow>
   AuthzConfig \<Rightarrow> string list \<Rightarrow> string list \<Rightarrow> 's Authorizer \<Rightarrow>
   error + 's Authorizer" where
  "setupAuthorizer unionNew Match lib authorization allowPaths ignorePaths delegatedAuthz =
     (case NewStaticAuthorizer (case Static authorization of None \<Rightarrow> [] | Some rules \<Rightarrow> rules) of
        Inl err \<Rightarrow> Inl (WrapError (''failed to create static authorizer: '' @ Error err) err)
      | Inr staticAuthorizer \<Rightarrow>
          (let authz =
                 rewritingAuthorizer_Authorize lib
                   (unionNew [pureAuthorizer (\<lambda>ctx. staticAuthorizer_Authorize staticAuthorizer),
                              delegatedAuthz])
                   (NewRewritingAuthorizer_config (RewriteAttributesConfig authorization));
               authz =
                 (if length allowPaths > 0
                  then unionNew [pureAuthorizer (\<lambda>ctx. NewAllowPathAuthorizer Match allowPaths), authz]
                  else authz);
               authz =
                 (if length ignorePaths > 0
                  then unionNew [pureAuthorizer (\<lambda>ctx. NewAlwaysAllowPathAuthorizer Match ignorePaths), authz]
                  else authz)
           in Inr authz))"






definition validStatic :: "StaticAuthorizationConfig list option \<Rightarrow> bool" where
  "validStatic rules =
     (case rules of
        None \<Rightarrow> True
      | Some rs \<Rightarrow> list_all (\<lambda>c. ResourceRequest_cfg c = (Path_cfg c = '''')) rs)"

section \<open>Example data\<close>

abbreviation getRequest :: "string \<Rightarrow> string \<Rightarrow> Attributes" where
  "getRequest userName path \<equiv>
     \<lparr>User = Some \<lparr>Name_user = userName, UID_user = [], Groups_user = [], Extra_user = []\<rparr>,
      Verb = ''get'', Namespace = [], APIGroup = [], APIVersion = [], Resource = [],
      Subresource = [], Name = [], ResourceRequest = False, Path = path\<rparr>"

abbreviation podsTemplate :: ResourceAttributes where
  "podsTemplate \<equiv>
     \<lparr>Namespace_ra = ''{{ .Value }}'', APIGroup_ra = [], APIVersion_ra = ''v1'',
      Resource_ra = ''pods'', Subresource_ra = [], Name_ra = []\<rparr>"


abbreviation allowAll :: "Context \<Rightarrow> Attributes \<Rightarrow> AuthzResult" where
  "allowAll \<equiv> (\<lambda>ctx a. (DecisionAllow, [], None))"



abbreviation boundConfig :: RewriteAttributesConfig where
  "boundConfig \<equiv>
     \<lparr>Rewrites = None,
      ResourceAttributes =
        Some \<lparr>Namespace_ra = ''team-a'', APIGroup_ra = ''monitoring.coreos.com'',
              APIVersion_ra = [], Resource_ra = ''prometheusrules'', Subresource_ra = [],
              Name_ra = []\<rparr>,
      ResourceAttributesFile = []\<rparr>"

abbreviation rulesIn :: "string \<Rightarrow> string \<Rightarrow> Attributes" where
  "rulesIn userName ns \<equiv>
     \<lparr>User = Some \<lparr>Name_user = userName, UID_user = [], Groups_user = [], Extra_user = []\<rparr>,
      Verb = ''get'', Namespace = ns, APIGroup = ''monitoring.coreos.com'', APIVersion = [],
      Resource = ''prometheusrules'', Subresource = [], Name = [], ResourceRequest = True,
      Path = []\<rparr>"

abbreviation noParams :: Context where
  "noParams \<equiv> \<lparr>rewriterParams = None\<rparr>"

section \<open>Properties of the static authorizer\<close>

lemma isAllowed_iff: "isAllowed c v \<longleftrightarrow> (c \<noteq> [] \<longrightarrow> c = v)"
  by (simp add: isAllowed_def)

lemma Matches_rule_matches: "Matches r a = rule_matches r a"
  by (simp add: Matches_def rule_matches_def rule_fields_def attrUserName_def isAllowed_iff)

lemma static_first_match:
  "staticAuthorizer_Authorize config a =
     (if \<exists>r \<in> set config. Matches r a
      then (DecisionAllow, ''found corresponding static auth config'', None)
      else (DecisionNoOpinion, [], None))"
  by (induction config) auto

lemma NewStaticAuthorizer_loop_eq:
  "NewStaticAuthorizer_loop rules config =
     (if \<exists>c \<in> set rules. ResourceRequest_cfg c \<noteq> (Path_cfg c = [])
      then Inl (ErrorString
                  (''invalid configuration: resource requests must not include a path: '' @
                   Sprint_config config))
      else Inr config)"
  by (induction rules) auto

text \<open>
  Claim C5. For every rule list and every attributes value the static matcher returns
  Allow exactly when some rule of the list matches as the specification words it (each
  non-empty string field of the rule equal to the field of the attributes, the two
  \<open>resourceRequest\<close> booleans equal), and NoOpinion otherwise; it never returns Deny and
  never an error.
\<close>

theorem static_matcher_decision:
  "staticAuthorizer_Authorize config a =
     (if \<exists>r \<in> set config. rule_matches r a
      then (DecisionAllow, ''found corresponding static auth config'', None)
      else (DecisionNoOpinion, [], None)) \<and>
   fst (staticAuthorizer_Authorize config a) \<noteq> DecisionDeny \<and>
   snd (snd (staticAuthorizer_Authorize config a)) = None"
  by (simp add: static_first_match Matches_rule_matches)

text \<open>
  The rule \<open>{resource: prometheusrules, resourceRequest: true}\<close> matches a request for
  \<open>prometheusrules\<close> in the namespace \<open>team-a\<close>: every other field of the rule is empty.
\<close>

theorem static_matcher_decision_witness:
  "rule_matches
     \<lparr>User_cfg = \<lparr>Name_uc = [], Groups_uc = []\<rparr>, Verb_cfg = [], Namespace_cfg = [],
      APIGroup_cfg = [], Resource_cfg = ''prometheusrules'', Subresource_cfg = [],
      Name_cfg = [], ResourceRequest_cfg = True, Path_cfg = []\<rparr>
     \<lparr>User = Some \<lparr>Name_user = ''alice'', UID_user = [], Groups_user = [''dev''], Extra_user = []\<rparr>,
      Verb = ''get'', Namespace = ''team-a'', APIGroup = ''monitoring.coreos.com'',
      APIVersion = [], Resource = ''prometheusrules'', Subresource = [], Name = [],
      ResourceRequest = True, Path = []\<rparr> \<and>
   staticAuthorizer_Authorize
     [\<lparr>User_cfg = \<lparr>Name_uc = [], Groups_uc = []\<rparr>, Verb_cfg = [], Namespace_cfg = [],
       APIGroup_cfg = [], Resource_cfg = ''prometheusrules'', Subresource_cfg = [],
       Name_cfg = [], ResourceRequest_cfg = True, Path_cfg = []\<rparr>]
     \<lparr>User = Some \<lparr>Name_user = ''alice'', UID_user = [], Groups_user = [''dev''], Extra_user = []\<rparr>,
      Verb = ''get'', Namespace = ''team-a'', APIGroup = ''monitoring.coreos.com'',
      APIVersion = [], Resource = ''prometheusrules'', Subresource = [], Name = [],
      ResourceRequest = True, Path = []\<rparr>
   = (DecisionAllow, ''found corresponding static auth config'', None)"
  using static_matcher_decision
    [of "[\<lparr>User_cfg = \<lparr>Name_uc = [], Groups_uc = []\<rparr>, Verb_cfg = [], Namespace_cfg = [],
           APIGroup_cfg = [], Resource_cfg = ''prometheusrules'', Subresource_cfg = [],
           Name_cfg = [], ResourceRequest_cfg = True, Path_cfg = []\<rparr>]"
        "\<lparr>User = Some \<lparr>Name_user = ''alice'', UID_user = [], Groups_user = [''dev''], Extra_user = []\<rparr>,
          Verb = ''get'', Namespace = ''team-a'', APIGroup = ''monitoring.coreos.com'',
          APIVersion = [], Resource = ''prometheusrules'', Subresource = [], Name = [],
          ResourceRequest = True, Path = []\<rparr>"]
  by (simp add: rule_matches_def rule_fields_def attrUserName_def)

text \<open>
  Claim C9. Constructing the static authorizer returns an error exactly when some rule
  of the configuration violates \<open>resourceRequest == (path == "")\<close>; otherwise it returns
  the authorizer over the configuration. The authorizer itself never returns an error
  for a request.
\<close>

theorem static_authorizer_construction:
  "((\<exists>err. NewStaticAuthorizer config = Inl err) \<longleftrightarrow>
      (\<exists>c \<in> set config. ResourceRequest_cfg c \<noteq> (Path_cfg c = []))) \<and>
   NewStaticAuthorizer config =
     (if \<exists>c \<in> set config. ResourceRequest_cfg c \<noteq> (Path_cfg c = [])
      then Inl (ErrorString
                  (''invalid configuration: resource requests must not include a path: '' @
                   Sprint_config config))
      else Inr config) \<and>
   snd (snd (staticAuthorizer_Authorize config a)) = None"
  by (simp add: NewStaticAuthorizer_def NewStaticAuthorizer_loop_eq static_first_match)

text \<open>
  Claim C10. \<open>Matches\<close> gives the same result for attributes that differ only in the API
  version, for attributes that differ only in the groups of the user, and for rules that
  differ only in the groups they list: neither the groups nor the API version are read.
\<close>

theorem static_matches_ignores_groups_and_version:
  "Matches r (a\<lparr>APIVersion := v\<rparr>) = Matches r a \<and>
   Matches r (a\<lparr>User := Some (u\<lparr>Groups_user := g\<rparr>)\<rparr>) = Matches r (a\<lparr>User := Some u\<rparr>) \<and>
   Matches (r\<lparr>User_cfg := (User_cfg r)\<lparr>Groups_uc := gs\<rparr>\<rparr>) a = Matches r a"
  by (simp add: Matches_def)

section \<open>Properties of the path authorizer\<close>

lemma TrimPrefix_slash: "TrimPrefix s ''/'' = stripSlash s"
  by (cases s) (auto simp: TrimPrefix_def HasPrefix_def stripSlash_def)

lemma newPathAuthorizer_loop_eq:
  "newPathAuthorizer_loop inputPaths pths patterns =
     (pths \<union> exactPaths inputPaths, patterns @ globPatterns inputPaths)"
proof (induction inputPaths arbitrary: pths patterns)
  case Nil
  show ?case by (simp add: exactPaths_def globPatterns_def)
next
  case (Cons p rest)
  show ?case
    by (auto simp: Cons.IH TrimPrefix_slash ContainsRune_def exactPaths_def globPatterns_def Let_def)
qed

lemma matchPatterns_eq:
  "matchPatterns Match a pats pth =
     pathDecision (matchDecision a) (noMatchDecision a)
       (case dropWhile (\<lambda>p. Match p pth = Inr False) pats of
          [] \<Rightarrow> NoMatch
        | p # _ \<Rightarrow> (case Match p pth of Inl e \<Rightarrow> BadPattern e | Inr _ \<Rightarrow> Matched))"
  by (induction pats) (auto simp: pathDecision_def split: sum.splits)

lemma pathAuthorizer_Authorize_eq:
  "pathAuthorizer_Authorize Match (newPathAuthorizer onMatch onNoMatch inputPaths) attr =
     pathDecision onMatch onNoMatch (pathOutcomeOf Match inputPaths (Path attr))"
  by (simp add: pathAuthorizer_Authorize_def newPathAuthorizer_def newPathAuthorizer_loop_eq
      matchPatterns_eq pathOutcomeOf_def TrimPrefix_slash Let_def pathDecision_def)

text \<open>
  Claim C6 as stated fails on the allow-list constructor: with an empty list no path
  matches and the answer is NoOpinion, not Deny; and a malformed pattern that is reached
  gives NoOpinion with an error, whether or not the path would have matched.
\<close>

theorem path_allow_list_not_deny:
  "pathOutcomeOf literalStarMatch [] ''/metrics'' = NoMatch \<and>
   NewAllowPathAuthorizer literalStarMatch [] (getRequest ''alice'' ''/metrics'') =
     (DecisionNoOpinion, [], None) \<and>
   NewAllowPathAuthorizer literalStarMatch [''/[*''] (getRequest ''alice'' ''/metrics'') =
     (DecisionNoOpinion, ''Error'', Some (ErrorString ''syntax error in pattern''))"
  by (simp add: NewAllowPathAuthorizer_def noopAuthorizer_def pathAuthorizer_Authorize_def
      newPathAuthorizer_def TrimPrefix_def HasPrefix_def ContainsRune_def literalStarMatch_def
      pathOutcomeOf_def stripSlash_def exactPaths_def globPatterns_def)

text \<open>
  Claim C6, amended. For every path list and every request path the authorizer strips
  one leading \<open>/\<close> from the entries and from the request path, looks the path up in
  the exact-match set first and then tries the patterns in order, the first that matches
  or is malformed deciding. The allow-list constructor answers NoOpinion for every
  request when the list is empty; otherwise NoOpinion on a match and Deny on no match.
  The ignore-list constructor answers Allow on a match and NoOpinion on no match. Under
  both a malformed pattern gives NoOpinion with the reason \<open>Error\<close> and the error.
\<close>

theorem path_authorizer_decision:
  "NewAllowPathAuthorizer Match inputPaths attr =
     (if inputPaths = [] then (DecisionNoOpinion, [], None)
      else (case pathOutcomeOf Match inputPaths (Path attr) of
              Matched \<Rightarrow> (DecisionNoOpinion, [], None)
            | NoMatch \<Rightarrow> (DecisionDeny, [], None)
            | BadPattern e \<Rightarrow> (DecisionNoOpinion, ''Error'', Some e))) \<and>
   NewAlwaysAllowPathAuthorizer Match inputPaths attr =
     (case pathOutcomeOf Match inputPaths (Path attr) of
        Matched \<Rightarrow> (DecisionAllow, [], None)
      | NoMatch \<Rightarrow> (DecisionNoOpinion, [], None)
      | BadPattern e \<Rightarrow> (DecisionNoOpinion, ''Error'', Some e))"
  by (simp add: NewAllowPathAuthorizer_def NewAlwaysAllowPathAuthorizer_def noopAuthorizer_def
      pathAuthorizer_Authorize_eq pathDecision_def split: pathOutcome.splits)

text \<open>
  The allow-list \<open>[/healthz, /metrics*]\<close>: \<open>/metrics\<close> matches the pattern, \<open>/metrics/foo\<close>
  does not (\<open>*\<close> does not span \<open>/\<close>), and \<open>//healthz\<close> keeps one of its two slashes.
\<close>

lemma path_authorizer_examples:
  "NewAllowPathAuthorizer literalStarMatch [''/healthz'', ''/metrics*''] (getRequest ''alice'' ''/metrics'') =
     (DecisionNoOpinion, [], None)"
  "NewAllowPathAuthorizer literalStarMatch [''/healthz'', ''/metrics*''] (getRequest ''alice'' ''/metrics/foo'') =
     (DecisionDeny, [], None)"
  "NewAlwaysAllowPathAuthorizer literalStarMatch [''/healthz'', ''/metrics*''] (getRequest ''alice'' ''/healthz'') =
     (DecisionAllow, [], None)"
  "NewAlwaysAllowPathAuthorizer literalStarMatch [''/healthz'', ''/metrics*''] (getRequest ''alice'' ''//healthz'') =
     (DecisionNoOpinion, [], None)"
  by (simp_all add: NewAllowPathAuthorizer_def NewAlwaysAllowPathAuthorizer_def
      pathAuthorizer_Authorize_def newPathAuthorizer_def TrimPrefix_def HasPrefix_def
      ContainsRune_def literalStarMatch_def)

section \<open>Properties of the parameter extractor\<close>

text \<open>
  Claim C2 as stated fails: with a query parameter and a header both configured, the
  extractor returns the values of both in one sequence.
\<close>

theorem rewrite_params_both_sources:
  "requestToParams CanonicalMIMEHeaderKey
     (Some \<lparr>Rewrites = Some \<lparr>ByQueryParameter = Some \<lparr>Name_query = ''namespace''\<rparr>,
                              ByHTTPHeader = Some \<lparr>Name_header = ''x-namespace''\<rparr>\<rparr>,
            ResourceAttributes = None, ResourceAttributesFile = []\<rparr>)
     \<lparr>Query = [''namespace'' \<mapsto> [''ns1'']], Header = [''X-Namespace'' \<mapsto> [''ns2'']]\<rparr>
   = [''ns1'', ''ns2'']"
  by code_simp

text \<open>
  Claim C2, amended. For every rewrite configuration and every request the extractor
  returns the values of the configured query parameter, in transport order, followed by
  the values of the configured header; each part reads its own map of the request only,
  and a source that is not configured (or has an empty name) contributes nothing. So
  with one source configured only that source is read, and with both configured the two
  are concatenated, query values first. Without a configuration or without rewrites the
  result is empty.
\<close>

theorem rewrite_params_sources:
  "requestToParams canonicalKey config req =
     (case config of
        None \<Rightarrow> []
      | Some cfg \<Rightarrow>
          (case Rewrites cfg of
             None \<Rightarrow> []
           | Some rewrites \<Rightarrow>
               queryValues rewrites (Query req) @ headerValues canonicalKey rewrites (Header req)))"
  by (auto simp: requestToParams_def queryValues_def headerValues_def Let_def
      split: option.splits)

lemma rewrite_params_one_source:
  "ByHTTPHeader rewrites = None \<Longrightarrow>
   requestToParams canonicalKey (Some (cfg\<lparr>Rewrites := Some rewrites\<rparr>)) req =
     queryValues rewrites (Query req)"
  "ByQueryParameter rewrites = None \<Longrightarrow>
   requestToParams canonicalKey (Some (cfg\<lparr>Rewrites := Some rewrites\<rparr>)) req =
     headerValues canonicalKey rewrites (Header req)"
  by (auto simp: requestToParams_def queryValues_def headerValues_def Let_def
      split: option.splits)

section \<open>Properties of the template substitution\<close>

lemma lex_literal:
  "\<not> hasDelim t \<Longrightarrow> lexTemplate False acc t = Some [(False, rev acc @ t)]"
  by (induction t arbitrary: acc rule: hasDelim.induct) auto

text \<open>In the fragment a template without a placeholder renders unchanged.\<close>

lemma fragment_literal_unchanged:
  assumes "\<not> hasDelim t"
  shows "templateWithValue fragmentLib t v = Inr t"
    and "templateWithValue_authz fragmentLib t v = Inr t"
    and "templateWithValue_rewriting fragmentLib t v = Inr t"
  using assms
  by (simp_all add: templateWithValue_def templateWithValue_authz_def
      templateWithValue_rewriting_def fragmentLib_def fragment_Parse_def fragment_Execute_def
      lex_literal [where acc = "[]", simplified])




section \<open>Properties of the attribute generators\<close>







text \<open>
  When a field of the template does not parse, the generator panics at the first value
  instead of returning attribute sets.
\<close>

lemma rewriting_generator_panics:
  "RewritingAttributesGenerator_Generate fragmentLib (podsTemplate\<lparr>Namespace_ra := ''{{ .Value''\<rparr>)
     \<lparr>rewriterParams = Some [''ns1'', ''ns2'']\<rparr> (getRequest ''bob'' ''/metrics'') =
     Inl NilPointerDereference"
  by code_simp

section \<open>Properties of the AND-combinator\<close>










text \<open>
  Claim C3 on the code. The Rewriting generator returns no attribute set for a request
  without rewrite parameters. \<open>delegateAuthorizer.Authorize\<close> then returns Deny with a nil
  error, as for an ordinary denial; \<open>rewritingAuthorizer.Authorize\<close> returns Deny with
  the bad-request error on the same input.
\<close>

theorem and_combinator_zero_sets:
  "RewritingAttributesGenerator_Generate fragmentLib podsTemplate noParams
     (getRequest ''bob'' ''/metrics'') = Inr [] \<and>
   delegateAuthorizer_Authorize (recordingDelegate allowAll)
     (RewritingAttributesGenerator_Generate fragmentLib podsTemplate) noParams
     (getRequest ''bob'' ''/metrics'') [] =
     (Inr (DecisionDeny, ''No attribute combination matched'', None), []) \<and>
   rewritingAuthorizer_Authorize fragmentLib (recordingDelegate allowAll)
     \<lparr>Rewrites = Some \<lparr>ByQueryParameter = Some \<lparr>Name_query = ''namespace''\<rparr>, ByHTTPHeader = None\<rparr>,
      ResourceAttributes = Some podsTemplate, ResourceAttributesFile = []\<rparr>
     noParams (getRequest ''bob'' ''/metrics'') [] =
     (Inr (DecisionDeny, ''The request or configuration is malformed.'',
           Some (ErrorString ''bad request. The request or configuration is malformed'')), [])"
  by code_simp

section \<open>Properties of the composition root\<close>

lemma NewStaticAuthorizer_valid:
  "list_all (\<lambda>c. ResourceRequest_cfg c = (Path_cfg c = [])) rs \<Longrightarrow> NewStaticAuthorizer rs = Inr rs"
  by (simp add: NewStaticAuthorizer_def NewStaticAuthorizer_loop_eq list_all_iff)




text \<open>
  The configurations \<open>SetupAuthorizer\<close> does not accept: both path lists given, an
  invalid static rule, and a nil rewrite configuration, in the order the code meets
  them.
\<close>

lemma composition_root_rejects:
  "allowPaths \<noteq> [] \<Longrightarrow> ignorePaths \<noteq> [] \<Longrightarrow>
   SetupAuthorizer unionNew Match lib config allowPaths ignorePaths delegate =
     Inr (Inl (ErrorString ''allow and ignore paths cannot be used together''))"
  "allowPaths = [] \<or> ignorePaths = [] \<Longrightarrow> Static config = Some rs \<Longrightarrow>
   NewStaticAuthorizer rs = Inl err \<Longrightarrow>
   SetupAuthorizer unionNew Match lib config allowPaths ignorePaths delegate =
     Inr (Inl (WrapError (''failed to create static authorizer: '' @ Error err) err))"
  "allowPaths = [] \<or> ignorePaths = [] \<Longrightarrow> validStatic (Static config) \<Longrightarrow>
   RewriteAttributesConfig config = None \<Longrightarrow>
   SetupAuthorizer unionNew Match lib config allowPaths ignorePaths delegate =
     Inl NilPointerDereference"
proof -
  show "allowPaths \<noteq> [] \<Longrightarrow> ignorePaths \<noteq> [] \<Longrightarrow>
   SetupAuthorizer unionNew Match lib config allowPaths ignorePaths delegate =
     Inr (Inl (ErrorString ''allow and ignore paths cannot be used together''))"
    by (simp add: SetupAuthorizer_def)
  show "allowPaths = [] \<or> ignorePaths = [] \<Longrightarrow> Static config = Some rs \<Longrightarrow>
   NewStaticAuthorizer rs = Inl err \<Longrightarrow>
   SetupAuthorizer unionNew Match lib config allowPaths ignorePaths delegate =
     Inr (Inl (WrapError (''failed to create static authorizer: '' @ Error err) err))"
    by (auto simp: SetupAuthorizer_def)
  show "allowPaths = [] \<or> ignorePaths = [] \<Longrightarrow> validStatic (Static config) \<Longrightarrow>
   RewriteAttributesConfig config = None \<Longrightarrow>
   SetupAuthorizer unionNew Match lib config allowPaths ignorePaths delegate =
     Inl NilPointerDereference"
    by (cases "Static config")
       (auto simp: SetupAuthorizer_def validStatic_def NewStaticAuthorizer_valid)
qed

text \<open>
  What the nesting means for a request. Under \<open>SetupAuthorizer\<close> the path strategy is
  asked about the generated attribute sets: with a bound resource these carry no path,
  so the allow-list \<open>[/metrics]\<close> denies the request for \<open>/metrics\<close> and the delegate is
  never called. Under the older \<open>setupAuthorizer\<close> the path strategy stands outside
  and sees the path of the request.
\<close>

lemma composition_roots_differ:
  "(case SetupAuthorizer unionAuthorize literalStarMatch fragmentLib
           \<lparr>RewriteAttributesConfig = Some boundConfig, Static = None\<rparr>
           [''/metrics''] [] (recordingDelegate allowAll) of
      Inr (Inr authz) \<Rightarrow> Some (authz noParams (getRequest ''bob'' ''/metrics'') [])
    | _ \<Rightarrow> None) =
     Some (Inr (DecisionDeny,
                ''Forbidden (user=, verb=get, resource=prometheusrules, subresource=): '', None),
           [])"
  "(case setupAuthorizer unionAuthorize literalStarMatch fragmentLib
           \<lparr>RewriteAttributesConfig = Some boundConfig, Static = None\<rparr>
           [''/metrics''] [] (recordingDelegate allowAll) of
      Inr authz \<Rightarrow> Some (authz noParams (getRequest ''bob'' ''/metrics'') [])
    | _ \<Rightarrow> None) =
     Some (Inr (DecisionAllow, [], None), [rulesIn ''bob'' ''team-a''])"
  by code_simp+

end
